theory Spec2Isabelle
  imports Main "HOL-Library.Sublist"
begin

section \<open>Shared interfaces and utilities of the combobox widgets\<close>

text \<open>
  \<^verbatim>\<open>combo-eleven.tsx\<close> imports \<^verbatim>\<open>SelectOption\<close> from \<^verbatim>\<open>../../shared/interfaces\<close> and
  \<^verbatim>\<open>getActionFromKey\<close>, \<^verbatim>\<open>getUpdatedIndex\<close>, \<^verbatim>\<open>MenuActions\<close> and \<^verbatim>\<open>filterOptions\<close> from
  \<^verbatim>\<open>../../shared/utils\<close>. Neither module is part of the sources at hand; the
  definitions of this section follow the specification's description of them and keep
  the names under which the widgets import them.
\<close>

text \<open>
  Modelled from the spec: the interface \<^verbatim>\<open>SelectOption\<close> (``a label string and an opaque
  associated value''; the widgets document it as ``name/value options'' and read
  \<^verbatim>\<open>option.name\<close>).
\<close>

record SelectOption =
  name :: string
  optionValue :: string

text \<open>
  Modelled from the spec: the enumeration \<^verbatim>\<open>MenuActions\<close>. The widgets use the members
  \<^verbatim>\<open>Next\<close>, \<^verbatim>\<open>Last\<close>, \<^verbatim>\<open>First\<close>, \<^verbatim>\<open>Previous\<close>, \<^verbatim>\<open>CloseSelect\<close> (the spec's CloseAndSelect),
  \<^verbatim>\<open>Close\<close> and \<^verbatim>\<open>Open\<close>; \<open>NoAction\<close> is the spec's None, the result for a key that
  the classifier does not recognise.
\<close>

datatype MenuActions = Close | CloseSelect | First | Last | Next | Open | Previous | NoAction

subsection \<open>Action classifier\<close>

text \<open>
  Modelled from the spec: \<^verbatim>\<open>getActionFromKey\<close> (the spec's \<^verbatim>\<open>classify\<close> /
  \<^verbatim>\<open>classifyAction\<close>), the decision table of section 4.2 read top to bottom.
\<close>

definition getActionFromKey :: "string \<Rightarrow> bool \<Rightarrow> MenuActions" where
  "getActionFromKey key menuOpen =
     (if key = ''ArrowDown'' then (if menuOpen then Next else Open)
      else if key = ''ArrowUp'' then (if menuOpen then Previous else Open)
      else if key = ''Home'' then First
      else if key = ''End'' then Last
      else if key = ''Enter'' then (if menuOpen then CloseSelect else NoAction)
      else if key = ''Escape'' then (if menuOpen then Close else NoAction)
      else NoAction)"

subsection \<open>Navigation index calculator\<close>

text \<open>
  Modelled from the spec: \<^verbatim>\<open>getUpdatedIndex\<close> (the spec's \<^verbatim>\<open>nextIndex\<close> /
  \<^verbatim>\<open>computeNextIndex\<close>), section 4.3. Indices are JavaScript numbers that only ever hold
  integers here; \<open>max\<close> is \<open>- 1\<close> for an empty list, for which the spec fixes the
  result \<open>0\<close> ``by convention''.
\<close>

definition getUpdatedIndex :: "int \<Rightarrow> int \<Rightarrow> MenuActions \<Rightarrow> int" where
  "getUpdatedIndex current mx action =
     (if mx < 0 then 0
      else (case action of
              First \<Rightarrow> 0
            | Last \<Rightarrow> mx
            | Next \<Rightarrow> min (current + 1) mx
            | Previous \<Rightarrow> max (current - 1) 0
            | _ \<Rightarrow> current))"

subsection \<open>Option filter\<close>

text \<open>
  Modelled from the spec: \<^verbatim>\<open>filterOptions\<close>, section 4.1: a new list holding the
  options whose label matches the query, in the order of the input. The test that
  decides whether a label matches is a parameter, because the spec gives two accounts
  of it and the function is not among the sources: section 4.1 has the label,
  compared case-insensitively, contain the query as a substring, while the worked
  example of section 8 has the query \<open>a\<close> over \<open>Alaska\<close>, \<open>Arizona\<close> and \<open>Texas\<close>
  return \<open>Alaska\<close> and \<open>Arizona\<close> only.
\<close>

type_synonym labelTest = "string \<Rightarrow> string \<Rightarrow> bool"

definition filterOptions :: "labelTest \<Rightarrow> SelectOption list \<Rightarrow> string \<Rightarrow> SelectOption list" where
  "filterOptions test options query =
     filter (\<lambda>option. test (name option) query) options"

text \<open>
  Two label tests, used where a theorem is about concrete options. Strings are lists
  of 8-bit characters; lower-casing maps the letters \<open>A\<close> to \<open>Z\<close> to \<open>a\<close> to \<open>z\<close> and
  leaves every other character alone, which is all the sample labels and queries need.
\<close>

definition toLowerChar :: "char \<Rightarrow> char" where
  "toLowerChar c =
     (case map_of (zip ''ABCDEFGHIJKLMNOPQRSTUVWXYZ'' ''abcdefghijklmnopqrstuvwxyz'') c of
        Some d \<Rightarrow> d
      | None \<Rightarrow> c)"

definition toLowerCase :: "string \<Rightarrow> string" where
  "toLowerCase s = map toLowerChar s"

text \<open>\<open>startsWith s q\<close> reads \<open>q\<close> off the front of \<open>s\<close>, character by character.\<close>

fun startsWith :: "string \<Rightarrow> string \<Rightarrow> bool" where
  "startsWith s [] = True"
| "startsWith [] (c # q) = False"
| "startsWith (d # s) (c # q) = (d = c \<and> startsWith s q)"

text \<open>\<open>contains s q\<close> looks for \<open>q\<close> in \<open>s\<close> at every position, from left to right.\<close>

fun contains :: "string \<Rightarrow> string \<Rightarrow> bool" where
  "contains [] q = (q = [])"
| "contains (d # s) q = (startsWith (d # s) q \<or> contains s q)"

text \<open>
  Modelled from the spec: the label test in the words of section 4.1, containment of
  the query anywhere in the label, both lower-cased.
\<close>

definition labelContains :: labelTest where
  "labelContains label query = contains (toLowerCase label) (toLowerCase query)"

text \<open>
  Modelled from the spec: a label test under which the example of section 8 comes out
  as printed there, the label starting with the query, both lower-cased.
\<close>

definition labelStartsWith :: labelTest where
  "labelStartsWith label query = startsWith (toLowerCase label) (toLowerCase query)"

section \<open>The widgets of \<^verbatim>\<open>combo-eleven.tsx\<close>\<close>

text \<open>
  The file holds two Stencil components, \<^verbatim>\<open>ComboEleven\<close> (tag \<^verbatim>\<open>combo-eleven\<close>) and
  \<^verbatim>\<open>SuiCombobox\<close> (tag \<^verbatim>\<open>sui-combobox\<close>). A component is a record of its props, its
  state and its private fields; an event handler takes the record and returns it
  updated. Reading \<^verbatim>\<open>.name\<close> of \<^verbatim>\<open>undefined\<close> throws a \<^verbatim>\<open>TypeError\<close>: a handler that
  throws returns \<open>Inl\<close> with the error and the component as the assignments before the
  throw left it. Every handler that filters takes the label test of \<^verbatim>\<open>filterOptions\<close>
  as its first argument. What a handler does to the document alone (\<^verbatim>\<open>event.preventDefault()\<close>,
  scrolling the active option into view) is not part of the record; calls of
  \<^verbatim>\<open>inputRef.focus()\<close> are counted, events sent on \<^verbatim>\<open>selectEvent\<close> are logged in order.
\<close>

datatype error = TypeError

type_synonym 's outcome = "(error \<times> 's) + 's"

text \<open>The component after a handler has run, whether it returned or threw.\<close>

definition after :: "'s outcome \<Rightarrow> 's" where
  "after r = (case r of Inl (e, s) \<Rightarrow> s | Inr s \<Rightarrow> s)"

definition raised :: "'s outcome \<Rightarrow> error option" where
  "raised r = (case r of Inl (e, s) \<Rightarrow> Some e | Inr s \<Rightarrow> None)"

text \<open>\<^verbatim>\<open>xs[i]\<close> for an integral index: \<^verbatim>\<open>undefined\<close> (\<open>None\<close>) outside the array.\<close>

definition jsIndex :: "'a list \<Rightarrow> int \<Rightarrow> 'a option" where
  "jsIndex xs i = (if 0 \<le> i \<and> i < int (length xs) then Some (xs ! nat i) else None)"

text \<open>\<^verbatim>\<open>xs.indexOf(x)\<close>: the first position holding \<open>x\<close>, \<open>- 1\<close> when there is none.\<close>

fun indexOf :: "'a list \<Rightarrow> 'a \<Rightarrow> int" where
  "indexOf [] x = - 1"
| "indexOf (y # ys) x =
     (if y = x then 0 else (let r = indexOf ys x in if r < 0 then - 1 else r + 1))"

text \<open>
  The events the rendered markup binds handlers to: \<^verbatim>\<open>keydown\<close> (with the event's
  \<^verbatim>\<open>key\<close>), \<^verbatim>\<open>input\<close> (with the text then in the input element), \<^verbatim>\<open>blur\<close> and \<^verbatim>\<open>click\<close> on
  the input, \<^verbatim>\<open>click\<close> and \<^verbatim>\<open>mousedown\<close> on the option rendered at an index, and a new
  value of the \<^verbatim>\<open>options\<close> prop, which Stencil stores before it calls the watcher.
\<close>

datatype event =
    KeyDown string
  | Input string
  | Blur
  | InputClick
  | OptionClick nat
  | OptionMouseDown
  | OptionsChanged "SelectOption list"

subsection \<open>\<^verbatim>\<open>ComboEleven\<close>\<close>

record ComboEleven =
  ce_options :: "SelectOption list"
  ce_activeIndex :: int
  ce_filteredOptions :: "SelectOption list"
  ce_open :: bool
  ce_selectedIndex :: "int option"
  ce_value :: string
  ce_ignoreBlur :: bool
  ce_selectEvent :: "SelectOption list"
  ce_focusCalls :: nat

definition ce_componentDidLoad :: "labelTest \<Rightarrow> SelectOption list \<Rightarrow> ComboEleven" where
  "ce_componentDidLoad test opts =
     \<lparr> ce_options = opts, ce_activeIndex = 0,
       ce_filteredOptions = filterOptions test opts [], ce_open = False,
       ce_selectedIndex = None, ce_value = [], ce_ignoreBlur = False,
       ce_selectEvent = [], ce_focusCalls = 0 \<rparr>"

definition ce_watchOptions :: "labelTest \<Rightarrow> ComboEleven \<Rightarrow> SelectOption list \<Rightarrow> ComboEleven" where
  "ce_watchOptions test s newValue =
     s\<lparr>ce_filteredOptions := filterOptions test newValue (ce_value s)\<rparr>"

definition ce_updateMenuState :: "ComboEleven \<Rightarrow> bool \<Rightarrow> bool \<Rightarrow> ComboEleven" where
  "ce_updateMenuState s opn callFocus =
     (let s1 = s\<lparr>ce_open := opn\<rparr>
      in if callFocus then s1\<lparr>ce_focusCalls := Suc (ce_focusCalls s1)\<rparr> else s1)"

definition ce_onOptionChange :: "ComboEleven \<Rightarrow> int \<Rightarrow> ComboEleven" where
  "ce_onOptionChange s index = s\<lparr>ce_activeIndex := index\<rparr>"

definition ce_selectOption :: "labelTest \<Rightarrow> ComboEleven \<Rightarrow> int \<Rightarrow> ComboEleven outcome" where
  "ce_selectOption test s index =
     (case jsIndex (ce_filteredOptions s) index of
        None \<Rightarrow> Inl (TypeError, s)
      | Some selected \<Rightarrow>
          (let s1 = s\<lparr>ce_value := name selected\<rparr>;
               s2 = s1\<lparr>ce_filteredOptions :=
                         filterOptions test (ce_options s1) (ce_value s1)\<rparr>;
               s3 = s2\<lparr>ce_activeIndex := 0\<rparr>;
               s4 = s3\<lparr>ce_selectedIndex := Some 0\<rparr>
           in Inr (s4\<lparr>ce_selectEvent := ce_selectEvent s4 @ [selected]\<rparr>)))"

definition ce_onInput :: "labelTest \<Rightarrow> ComboEleven \<Rightarrow> string \<Rightarrow> ComboEleven" where
  "ce_onInput test s curValue =
     (let s1 = s\<lparr>ce_filteredOptions := filterOptions test (ce_options s) curValue\<rparr>;
          s2 = (if ce_value s1 \<noteq> curValue
                then s1\<lparr>ce_value := curValue, ce_activeIndex := 0, ce_selectedIndex := None\<rparr>
                else s1);
          menuState = (length (ce_filteredOptions s2) > 0)
      in if ce_open s2 \<noteq> menuState then ce_updateMenuState s2 menuState False else s2)"

definition ce_onInputKeyDown :: "labelTest \<Rightarrow> ComboEleven \<Rightarrow> string \<Rightarrow> ComboEleven outcome" where
  "ce_onInputKeyDown test s key =
     (let mx = int (length (ce_filteredOptions s)) - 1;
          action = getActionFromKey key (ce_open s)
      in case action of
           Next \<Rightarrow> Inr (ce_onOptionChange s (getUpdatedIndex (ce_activeIndex s) mx action))
         | Last \<Rightarrow> Inr (ce_onOptionChange s (getUpdatedIndex (ce_activeIndex s) mx action))
         | First \<Rightarrow> Inr (ce_onOptionChange s (getUpdatedIndex (ce_activeIndex s) mx action))
         | Previous \<Rightarrow> Inr (ce_onOptionChange s (getUpdatedIndex (ce_activeIndex s) mx action))
         | CloseSelect \<Rightarrow>
             \<comment> \<open>no \<^verbatim>\<open>break\<close>: control falls through to the \<^verbatim>\<open>Close\<close> case\<close>
             (case ce_selectOption test s (ce_activeIndex s) of
                Inl x \<Rightarrow> Inl x
              | Inr s1 \<Rightarrow> Inr (ce_updateMenuState s1 False True))
         | Close \<Rightarrow> Inr (ce_updateMenuState s False True)
         | Open \<Rightarrow> Inr (ce_updateMenuState s True True)
         | NoAction \<Rightarrow> Inr s)"

definition ce_onInputBlur :: "ComboEleven \<Rightarrow> ComboEleven" where
  "ce_onInputBlur s =
     (if ce_ignoreBlur s then s\<lparr>ce_ignoreBlur := False\<rparr>
      else ce_updateMenuState s False False)"

definition ce_onOptionClick :: "labelTest \<Rightarrow> ComboEleven \<Rightarrow> int \<Rightarrow> ComboEleven outcome" where
  "ce_onOptionClick test s index =
     (case ce_selectOption test (ce_onOptionChange s index) index of
        Inl x \<Rightarrow> Inl x
      | Inr s1 \<Rightarrow> Inr (ce_updateMenuState s1 False True))"

definition ce_onOptionMouseDown :: "ComboEleven \<Rightarrow> ComboEleven" where
  "ce_onOptionMouseDown s = s\<lparr>ce_ignoreBlur := True\<rparr>"

text \<open>The bindings of \<^verbatim>\<open>render\<close>: which handler an event reaches.\<close>

fun ce_handle :: "labelTest \<Rightarrow> ComboEleven \<Rightarrow> event \<Rightarrow> ComboEleven outcome" where
  "ce_handle test s (KeyDown key) = ce_onInputKeyDown test s key"
| "ce_handle test s (Input curValue) = Inr (ce_onInput test s curValue)"
| "ce_handle test s Blur = Inr (ce_onInputBlur s)"
| "ce_handle test s InputClick = Inr (ce_updateMenuState s True True)"
| "ce_handle test s (OptionClick i) = ce_onOptionClick test s (int i)"
| "ce_handle test s OptionMouseDown = Inr (ce_onOptionMouseDown s)"
| "ce_handle test s (OptionsChanged newValue) =
     Inr (ce_watchOptions test (s\<lparr>ce_options := newValue\<rparr>) newValue)"

text \<open>A sequence of events, handled in order up to the first handler that throws.\<close>

fun ce_run :: "labelTest \<Rightarrow> ComboEleven \<Rightarrow> event list \<Rightarrow> ComboEleven outcome" where
  "ce_run test s [] = Inr s"
| "ce_run test s (e # es) =
     (case ce_handle test s e of Inl x \<Rightarrow> Inl x | Inr s1 \<Rightarrow> ce_run test s1 es)"

subsection \<open>\<^verbatim>\<open>SuiCombobox\<close>\<close>

record SuiCombobox =
  sc_filter :: bool
  sc_options :: "SelectOption list"
  sc_activeIndex :: int
  sc_filteredOptions :: "SelectOption list"
  sc_open :: bool
  sc_value :: string
  sc_ignoreBlur :: bool
  sc_selectedValue :: string
  sc_selectEvent :: "SelectOption list"
  sc_focusCalls :: nat

text \<open>
  \<^verbatim>\<open>componentDidLoad\<close> runs with \<^verbatim>\<open>value\<close> not yet assigned, so the filter sees the
  default \<^verbatim>\<open>''\<close> and the value becomes the name of the first filtered option, if any.
\<close>

definition sc_componentDidLoad :: "labelTest \<Rightarrow> bool \<Rightarrow> SelectOption list \<Rightarrow> SuiCombobox" where
  "sc_componentDidLoad test flt opts =
     (let filtered = (if flt then filterOptions test opts [] else opts)
      in \<lparr> sc_filter = flt, sc_options = opts, sc_activeIndex = 0,
           sc_filteredOptions = filtered, sc_open = False,
           sc_value = (if length filtered > 0 then name (hd filtered) else []),
           sc_ignoreBlur = False, sc_selectedValue = [], sc_selectEvent = [],
           sc_focusCalls = 0 \<rparr>)"

definition sc_watchOptions :: "labelTest \<Rightarrow> SuiCombobox \<Rightarrow> SelectOption list \<Rightarrow> SuiCombobox" where
  "sc_watchOptions test s newValue =
     (if sc_filter s
      then s\<lparr>sc_filteredOptions := filterOptions test newValue (sc_value s)\<rparr>
      else s)"

definition sc_updateMenuState :: "SuiCombobox \<Rightarrow> bool \<Rightarrow> bool \<Rightarrow> SuiCombobox" where
  "sc_updateMenuState s opn callFocus =
     (let s1 = s\<lparr>sc_open := opn\<rparr>
      in if callFocus then s1\<lparr>sc_focusCalls := Suc (sc_focusCalls s1)\<rparr> else s1)"

definition sc_onOptionChange :: "SuiCombobox \<Rightarrow> int \<Rightarrow> SuiCombobox" where
  "sc_onOptionChange s index = s\<lparr>sc_activeIndex := index\<rparr>"

definition sc_selectOption :: "labelTest \<Rightarrow> SuiCombobox \<Rightarrow> int \<Rightarrow> SuiCombobox outcome" where
  "sc_selectOption test s index =
     (case jsIndex (sc_filteredOptions s) index of
        None \<Rightarrow> Inl (TypeError, s)
      | Some selected \<Rightarrow>
          (let s1 = s\<lparr>sc_value := name selected\<rparr>;
               s2 = s1\<lparr>sc_selectedValue := name selected\<rparr>;
               s3 = s2\<lparr>sc_activeIndex := 0\<rparr>;
               s4 = (if sc_filter s3
                     then s3\<lparr>sc_filteredOptions :=
                               filterOptions test (sc_options s3) (sc_value s3)\<rparr>
                     else s3)
           in Inr (s4\<lparr>sc_selectEvent := sc_selectEvent s4 @ [selected]\<rparr>)))"

text \<open>
  The first half of \<^verbatim>\<open>onInput\<close>. Without filtering, the callback of \<^verbatim>\<open>matches.filter\<close>
  reads \<^verbatim>\<open>this.options[this.activeIndex].name\<close> once per match, so it throws when there
  is a match and the active index is outside \<^verbatim>\<open>options\<close>.
\<close>

definition sc_onInput_index :: "SuiCombobox \<Rightarrow> SelectOption list \<Rightarrow> SuiCombobox outcome" where
  "sc_onInput_index s matches =
     (if sc_filter s then Inr (s\<lparr>sc_filteredOptions := matches, sc_activeIndex := 0\<rparr>)
      else (case matches of
              [] \<Rightarrow> Inr s
            | m # ms \<Rightarrow>
                (case jsIndex (sc_options s) (sc_activeIndex s) of
                   None \<Rightarrow> Inl (TypeError, s)
                 | Some cur \<Rightarrow>
                     (let filterCurrentOption =
                            filter (\<lambda>option. name option = name cur) matches
                      in if length matches > 0 \<and> length filterCurrentOption = 0
                         then Inr (s\<lparr>sc_activeIndex := indexOf (sc_options s) m\<rparr>)
                         else Inr s))))"

definition sc_onInput :: "labelTest \<Rightarrow> SuiCombobox \<Rightarrow> string \<Rightarrow> SuiCombobox outcome" where
  "sc_onInput test s curValue =
     (let matches = filterOptions test (sc_options s) curValue
      in case sc_onInput_index s matches of
           Inl x \<Rightarrow> Inl x
         | Inr s1 \<Rightarrow>
             (let s2 = (if sc_value s1 \<noteq> curValue then s1\<lparr>sc_value := curValue\<rparr> else s1);
                  menuState = (length (sc_filteredOptions s2) > 0)
              in Inr (if sc_open s2 \<noteq> menuState
                      then sc_updateMenuState s2 menuState False else s2)))"

text \<open>
  \<^verbatim>\<open>SuiCombobox\<close> hands the whole keyboard event to \<^verbatim>\<open>getActionFromKey\<close>; the event
  stands here for the key it carries.
\<close>

definition sc_onInputKeyDown :: "labelTest \<Rightarrow> SuiCombobox \<Rightarrow> string \<Rightarrow> SuiCombobox outcome" where
  "sc_onInputKeyDown test s key =
     (let mx = int (length (sc_filteredOptions s)) - 1;
          action = getActionFromKey key (sc_open s)
      in case action of
           Next \<Rightarrow> Inr (sc_onOptionChange s (getUpdatedIndex (sc_activeIndex s) mx action))
         | Last \<Rightarrow> Inr (sc_onOptionChange s (getUpdatedIndex (sc_activeIndex s) mx action))
         | First \<Rightarrow> Inr (sc_onOptionChange s (getUpdatedIndex (sc_activeIndex s) mx action))
         | Previous \<Rightarrow> Inr (sc_onOptionChange s (getUpdatedIndex (sc_activeIndex s) mx action))
         | CloseSelect \<Rightarrow>
             (case sc_selectOption test s (sc_activeIndex s) of
                Inl x \<Rightarrow> Inl x
              | Inr s1 \<Rightarrow> Inr (sc_updateMenuState s1 False True))
         | Close \<Rightarrow>
             (let s1 = s\<lparr>sc_activeIndex := 0\<rparr>;
                  s2 = s1\<lparr>sc_value := sc_selectedValue s1\<rparr>;
                  s3 = s2\<lparr>sc_filteredOptions := sc_options s2\<rparr>
              in Inr (sc_updateMenuState s3 False True))
         | Open \<Rightarrow> Inr (sc_updateMenuState s True True)
         | NoAction \<Rightarrow> Inr s)"

definition sc_onInputBlur :: "labelTest \<Rightarrow> SuiCombobox \<Rightarrow> SuiCombobox outcome" where
  "sc_onInputBlur test s =
     (if sc_ignoreBlur s then Inr (s\<lparr>sc_ignoreBlur := False\<rparr>)
      else if sc_open s
           then (case sc_selectOption test s (sc_activeIndex s) of
                   Inl x \<Rightarrow> Inl x
                 | Inr s1 \<Rightarrow> Inr (sc_updateMenuState s1 False False))
           else Inr s)"

definition sc_onOptionClick :: "labelTest \<Rightarrow> SuiCombobox \<Rightarrow> int \<Rightarrow> SuiCombobox outcome" where
  "sc_onOptionClick test s index =
     (case sc_selectOption test (sc_onOptionChange s index) index of
        Inl x \<Rightarrow> Inl x
      | Inr s1 \<Rightarrow> Inr (sc_updateMenuState s1 False True))"

definition sc_onOptionMouseDown :: "SuiCombobox \<Rightarrow> SuiCombobox" where
  "sc_onOptionMouseDown s = s\<lparr>sc_ignoreBlur := True\<rparr>"

fun sc_handle :: "labelTest \<Rightarrow> SuiCombobox \<Rightarrow> event \<Rightarrow> SuiCombobox outcome" where
  "sc_handle test s (KeyDown key) = sc_onInputKeyDown test s key"
| "sc_handle test s (Input curValue) = sc_onInput test s curValue"
| "sc_handle test s Blur = sc_onInputBlur test s"
| "sc_handle test s InputClick = Inr (sc_updateMenuState s True True)"
| "sc_handle test s (OptionClick i) = sc_onOptionClick test s (int i)"
| "sc_handle test s OptionMouseDown = Inr (sc_onOptionMouseDown s)"
| "sc_handle test s (OptionsChanged newValue) =
     Inr (sc_watchOptions test (s\<lparr>sc_options := newValue\<rparr>) newValue)"

fun sc_run :: "labelTest \<Rightarrow> SuiCombobox \<Rightarrow> event list \<Rightarrow> SuiCombobox outcome" where
  "sc_run test s [] = Inr s"
| "sc_run test s (e # es) =
     (case sc_handle test s e of Inl x \<Rightarrow> Inl x | Inr s1 \<Rightarrow> sc_run test s1 es)"

section \<open>Sample options and component states\<close>

definition alaska :: SelectOption where
  "alaska = \<lparr>name = ''Alaska'', optionValue = ''AK''\<rparr>"

definition arizona :: SelectOption where
  "arizona = \<lparr>name = ''Arizona'', optionValue = ''AZ''\<rparr>"

definition ohio :: SelectOption where
  "ohio = \<lparr>name = ''Ohio'', optionValue = ''OH''\<rparr>"

definition texas :: SelectOption where
  "texas = \<lparr>name = ''Texas'', optionValue = ''TX''\<rparr>"

text \<open>
  \<^verbatim>\<open>ComboEleven\<close> over three options, after a click on the input and ArrowDown: the
  menu is open and the second option is active.
\<close>

definition ce_sample :: "labelTest \<Rightarrow> ComboEleven" where
  "ce_sample test =
     after (ce_run test (ce_componentDidLoad test [alaska, arizona, ohio])
                   [InputClick, KeyDown ''ArrowDown''])"

text \<open>
  \<^verbatim>\<open>SuiCombobox\<close> with filtering over three options, after \<open>Ohio\<close> has been selected
  by a click, the menu reopened, the letter \<open>a\<close> typed and ArrowDown pressed.
\<close>

definition sc_sample :: "labelTest \<Rightarrow> SuiCombobox" where
  "sc_sample test =
     after (sc_run test (sc_componentDidLoad test True [alaska, arizona, ohio])
                   [InputClick, OptionClick 2, InputClick, Input ''a'', KeyDown ''ArrowDown''])"

section \<open>Properties of the utilities\<close>

subsection \<open>Navigation index calculator\<close>

text \<open>
  Claim C1. For every \<open>max \<ge> 0\<close> and every \<open>current\<close> in \<open>[0, max]\<close> the calculator
  returns \<open>0\<close> for First, \<open>max\<close> for Last, \<open>min (current + 1) max\<close> for Next (at
  \<open>current = max\<close> it stays at \<open>max\<close> and does not wrap to \<open>0\<close>),
  \<open>max (current - 1) 0\<close> for Previous (at \<open>current = 0\<close> it stays at \<open>0\<close> and does not
  wrap to \<open>max\<close>), and \<open>current\<close> for Open, Close, CloseSelect and NoAction; whatever the
  action, the result lies in \<open>[0, max]\<close>.
\<close>

theorem getUpdatedIndex_table:
  assumes "0 \<le> mx" and "0 \<le> current" and "current \<le> mx"
  shows "getUpdatedIndex current mx First = 0
    \<and> getUpdatedIndex current mx Last = mx
    \<and> getUpdatedIndex current mx Next = min (current + 1) mx
    \<and> getUpdatedIndex mx mx Next = mx
    \<and> getUpdatedIndex current mx Previous = max (current - 1) 0
    \<and> getUpdatedIndex 0 mx Previous = 0
    \<and> getUpdatedIndex current mx Open = current
    \<and> getUpdatedIndex current mx Close = current
    \<and> getUpdatedIndex current mx CloseSelect = current
    \<and> getUpdatedIndex current mx NoAction = current
    \<and> 0 \<le> getUpdatedIndex current mx action
    \<and> getUpdatedIndex current mx action \<le> mx"
  using assms by (cases action) (simp_all add: getUpdatedIndex_def)

theorem getUpdatedIndex_table_witness:
  "(0::int) \<le> 4 \<and> (0::int) \<le> 2 \<and> (2::int) \<le> 4
   \<and> getUpdatedIndex 2 4 Next = 3 \<and> getUpdatedIndex 4 4 Next = 4
   \<and> getUpdatedIndex 2 4 Previous = 1 \<and> getUpdatedIndex 0 4 Previous = 0
   \<and> getUpdatedIndex 2 4 First = 0 \<and> getUpdatedIndex 2 4 Last = 4
   \<and> getUpdatedIndex 2 4 Close = 2"
  using getUpdatedIndex_table [of 4 2 Next] by simp

text \<open>
  Claim C8. For valid \<open>current\<close> and \<open>max\<close>, First applied to the result of First gives
  the result of First again, and Next at \<open>current = max\<close> returns \<open>current\<close>.
\<close>

theorem getUpdatedIndex_idempotent:
  assumes "0 \<le> mx" and "0 \<le> current" and "current \<le> mx"
  shows "getUpdatedIndex (getUpdatedIndex current mx First) mx First
           = getUpdatedIndex current mx First
    \<and> (current = mx \<longrightarrow> getUpdatedIndex current mx Next = current)"
  using assms by (simp add: getUpdatedIndex_def)

theorem getUpdatedIndex_idempotent_witness:
  "(0::int) \<le> 4 \<and> (4::int) \<le> 4
   \<and> getUpdatedIndex (getUpdatedIndex 4 4 First) 4 First = getUpdatedIndex 4 4 First
   \<and> getUpdatedIndex 4 4 Next = 4"
  using getUpdatedIndex_idempotent [of 4 4] by simp

subsection \<open>Action classifier\<close>

text \<open>
  Claim C3. The classifier is a total table: ArrowDown and ArrowUp give Open on a closed
  menu and Next, respectively Previous, on an open one; Home gives First and End gives
  Last; Enter gives CloseSelect and Escape gives Close on an open menu, and both give
  NoAction on a closed one; Tab, every one-character (printable) key and every other
  key give NoAction.
\<close>

theorem getActionFromKey_table:
  "getActionFromKey ''ArrowDown'' False = Open
   \<and> getActionFromKey ''ArrowDown'' True = Next
   \<and> getActionFromKey ''ArrowUp'' False = Open
   \<and> getActionFromKey ''ArrowUp'' True = Previous
   \<and> getActionFromKey ''Home'' menuOpen = First
   \<and> getActionFromKey ''End'' menuOpen = Last
   \<and> getActionFromKey ''Enter'' True = CloseSelect
   \<and> getActionFromKey ''Enter'' False = NoAction
   \<and> getActionFromKey ''Escape'' True = Close
   \<and> getActionFromKey ''Escape'' False = NoAction
   \<and> getActionFromKey ''Tab'' menuOpen = NoAction
   \<and> (length key = 1 \<longrightarrow> getActionFromKey key menuOpen = NoAction)
   \<and> (key \<notin> {''ArrowDown'', ''ArrowUp'', ''Home'', ''End'', ''Enter'', ''Escape''} \<longrightarrow>
        getActionFromKey key menuOpen = NoAction)"
  by (auto simp add: getActionFromKey_def)

theorem getActionFromKey_table_witness:
  "length ''a'' = 1 \<and> getActionFromKey ''a'' True = NoAction
   \<and> ''PageDown'' \<notin> {''ArrowDown'', ''ArrowUp'', ''Home'', ''End'', ''Enter'', ''Escape''}
   \<and> getActionFromKey ''PageDown'' True = NoAction"
  using getActionFromKey_table [of True "''a''"] getActionFromKey_table [of True "''PageDown''"]
  by simp

subsection \<open>Option filter\<close>

lemma startsWith_prefix: "startsWith s q \<longleftrightarrow> prefix q s"
  by (induction s q rule: startsWith.induct) auto

lemma contains_sublist: "contains s q \<longleftrightarrow> sublist q s"
  by (induction s) (simp_all add: startsWith_prefix sublist_Cons_right)

lemma labelContains_iff:
  "labelContains label query \<longleftrightarrow> (\<exists>pre suf. toLowerCase label = pre @ toLowerCase query @ suf)"
  by (simp add: labelContains_def contains_sublist sublist_def)

lemma labelStartsWith_iff:
  "labelStartsWith label query \<longleftrightarrow> (\<exists>suf. toLowerCase label = toLowerCase query @ suf)"
  by (simp add: labelStartsWith_def startsWith_prefix prefix_def)

text \<open>
  The two label tests part on the example of section 8: for the query \<open>a\<close>,
  containment keeps \<open>Texas\<close>, the test on the front of the label drops it.
\<close>

lemma label_tests_differ:
  "filterOptions labelContains [alaska, arizona, texas] ''a'' = [alaska, arizona, texas]
   \<and> filterOptions labelStartsWith [alaska, arizona, texas] ''a'' = [alaska, arizona]"
  by (simp add: filterOptions_def labelContains_def labelStartsWith_def toLowerCase_def
        toLowerChar_def alaska_def arizona_def texas_def)

section \<open>Properties of the widgets\<close>

lemmas ce_defs = ce_onInputKeyDown_def ce_onInput_def ce_onInputBlur_def ce_onOptionClick_def
  ce_onOptionMouseDown_def ce_watchOptions_def ce_updateMenuState_def ce_onOptionChange_def
  ce_selectOption_def

lemmas sc_defs = sc_onInputKeyDown_def sc_onInput_def sc_onInput_index_def sc_onInputBlur_def
  sc_onOptionClick_def sc_onOptionMouseDown_def sc_watchOptions_def sc_updateMenuState_def
  sc_onOptionChange_def sc_selectOption_def

lemmas sample_defs = alaska_def arizona_def ohio_def

lemmas eval_defs = ce_componentDidLoad_def sc_componentDidLoad_def after_def raised_def
  jsIndex_def filterOptions_def labelContains_def labelStartsWith_def toLowerCase_def
  toLowerChar_def getActionFromKey_def getUpdatedIndex_def Let_def sample_defs

text \<open>
  On the sample options the two label tests give the same component states, so the
  concrete theorems below do not hang on the choice between them.
\<close>

lemma ce_sample_eq:
  "ce_sample labelContains =
     \<lparr> ce_options = [alaska, arizona, ohio], ce_activeIndex = 1,
       ce_filteredOptions = [alaska, arizona, ohio], ce_open = True,
       ce_selectedIndex = None, ce_value = [], ce_ignoreBlur = False, ce_selectEvent = [],
       ce_focusCalls = 1 \<rparr>"
  by (simp add: ce_sample_def ce_defs eval_defs)

lemma sc_sample_eq:
  "sc_sample labelContains =
     \<lparr> sc_filter = True, sc_options = [alaska, arizona, ohio], sc_activeIndex = 1,
       sc_filteredOptions = [alaska, arizona], sc_open = True, sc_value = ''a'',
       sc_ignoreBlur = False, sc_selectedValue = ''Ohio'', sc_selectEvent = [ohio],
       sc_focusCalls = 3 \<rparr>"
  by (simp add: sc_sample_def sc_defs eval_defs)

lemma ce_sample_same: "ce_sample labelStartsWith = ce_sample labelContains"
  by (simp add: ce_sample_def ce_defs eval_defs)

lemma sc_sample_same: "sc_sample labelStartsWith = sc_sample labelContains"
  by (simp add: sc_sample_def sc_defs eval_defs)

subsection \<open>The menu flag\<close>

text \<open>
  What each event does to \<^verbatim>\<open>open\<close>, read off the handlers, whatever the label test.
  Selecting throws before it assigns anything when there is no option at the index, and
  the menu then stays as it was.
\<close>

lemma ce_open_after:
  "ce_open (after (ce_handle test s e)) =
    (case e of
       KeyDown key \<Rightarrow>
         (case getActionFromKey key (ce_open s) of
            Open \<Rightarrow> True
          | Close \<Rightarrow> False
          | CloseSelect \<Rightarrow> jsIndex (ce_filteredOptions s) (ce_activeIndex s) = None \<and> ce_open s
          | _ \<Rightarrow> ce_open s)
     | Input text \<Rightarrow> ce_filteredOptions (after (ce_handle test s e)) \<noteq> []
     | Blur \<Rightarrow> ce_ignoreBlur s \<and> ce_open s
     | InputClick \<Rightarrow> True
     | OptionClick i \<Rightarrow> jsIndex (ce_filteredOptions s) (int i) = None \<and> ce_open s
     | OptionMouseDown \<Rightarrow> ce_open s
     | OptionsChanged new \<Rightarrow> ce_open s)"
  by (cases e) (auto simp add: after_def ce_defs Let_def split: MenuActions.splits option.splits)

lemma sc_open_after:
  "sc_open (after (sc_handle test s e)) =
    (case e of
       KeyDown key \<Rightarrow>
         (case getActionFromKey key (sc_open s) of
            Open \<Rightarrow> True
          | Close \<Rightarrow> False
          | CloseSelect \<Rightarrow> jsIndex (sc_filteredOptions s) (sc_activeIndex s) = None \<and> sc_open s
          | _ \<Rightarrow> sc_open s)
     | Input text \<Rightarrow>
         (if raised (sc_handle test s e) = None
          then sc_filteredOptions (after (sc_handle test s e)) \<noteq> []
          else sc_open s)
     | Blur \<Rightarrow>
         sc_open s \<and> (sc_ignoreBlur s \<or> jsIndex (sc_filteredOptions s) (sc_activeIndex s) = None)
     | InputClick \<Rightarrow> True
     | OptionClick i \<Rightarrow> jsIndex (sc_filteredOptions s) (int i) = None \<and> sc_open s
     | OptionMouseDown \<Rightarrow> sc_open s
     | OptionsChanged new \<Rightarrow> sc_open s)"
  by (cases e)
    (auto simp add: after_def raised_def sc_defs Let_def
          split: MenuActions.splits option.splits list.splits)

text \<open>
  Claim C4, as the widgets have it. In both widgets, and for every label test of the
  filter, a closed menu opens only on a key classified as Open, on a click on the
  input, or on an input event that leaves a non-empty filtered list; an open menu
  closes only on a key classified as Close or CloseSelect, on blur, on a click on an
  option, or on an input event that leaves an empty filtered list. Every other event
  leaves the menu as it was.
\<close>

theorem menu_transitions:
  "(\<not> ce_open s \<and> ce_open (after (ce_handle test s e)) \<longrightarrow>
      (\<exists>key. e = KeyDown key \<and> getActionFromKey key False = Open)
      \<or> e = InputClick
      \<or> (\<exists>text. e = Input text \<and> ce_filteredOptions (after (ce_handle test s e)) \<noteq> []))
   \<and> (ce_open s \<and> \<not> ce_open (after (ce_handle test s e)) \<longrightarrow>
      (\<exists>key. e = KeyDown key
          \<and> (getActionFromKey key True = Close \<or> getActionFromKey key True = CloseSelect))
      \<or> e = Blur
      \<or> (\<exists>i. e = OptionClick i)
      \<or> (\<exists>text. e = Input text \<and> ce_filteredOptions (after (ce_handle test s e)) = []))
   \<and> (\<not> sc_open t \<and> sc_open (after (sc_handle test t e)) \<longrightarrow>
      (\<exists>key. e = KeyDown key \<and> getActionFromKey key False = Open)
      \<or> e = InputClick
      \<or> (\<exists>text. e = Input text \<and> sc_filteredOptions (after (sc_handle test t e)) \<noteq> []))
   \<and> (sc_open t \<and> \<not> sc_open (after (sc_handle test t e)) \<longrightarrow>
      (\<exists>key. e = KeyDown key
          \<and> (getActionFromKey key True = Close \<or> getActionFromKey key True = CloseSelect))
      \<or> e = Blur
      \<or> (\<exists>i. e = OptionClick i)
      \<or> (\<exists>text. e = Input text \<and> sc_filteredOptions (after (sc_handle test t e)) = []))"
proof -
  have c1: "\<not> ce_open s \<and> ce_open (after (ce_handle test s e)) \<longrightarrow>
      (\<exists>key. e = KeyDown key \<and> getActionFromKey key False = Open)
      \<or> e = InputClick
      \<or> (\<exists>text. e = Input text \<and> ce_filteredOptions (after (ce_handle test s e)) \<noteq> [])"
    unfolding ce_open_after by (cases e) (auto split: MenuActions.splits)
  have c2: "ce_open s \<and> \<not> ce_open (after (ce_handle test s e)) \<longrightarrow>
      (\<exists>key. e = KeyDown key
          \<and> (getActionFromKey key True = Close \<or> getActionFromKey key True = CloseSelect))
      \<or> e = Blur
      \<or> (\<exists>i. e = OptionClick i)
      \<or> (\<exists>text. e = Input text \<and> ce_filteredOptions (after (ce_handle test s e)) = [])"
    unfolding ce_open_after by (cases e) (auto split: MenuActions.splits)
  have c3: "\<not> sc_open t \<and> sc_open (after (sc_handle test t e)) \<longrightarrow>
      (\<exists>key. e = KeyDown key \<and> getActionFromKey key False = Open)
      \<or> e = InputClick
      \<or> (\<exists>text. e = Input text \<and> sc_filteredOptions (after (sc_handle test t e)) \<noteq> [])"
    unfolding sc_open_after by (cases e) (auto split: MenuActions.splits if_splits)
  have c4: "sc_open t \<and> \<not> sc_open (after (sc_handle test t e)) \<longrightarrow>
      (\<exists>key. e = KeyDown key
          \<and> (getActionFromKey key True = Close \<or> getActionFromKey key True = CloseSelect))
      \<or> e = Blur
      \<or> (\<exists>i. e = OptionClick i)
      \<or> (\<exists>text. e = Input text \<and> sc_filteredOptions (after (sc_handle test t e)) = [])"
    unfolding sc_open_after by (cases e) (auto split: MenuActions.splits if_splits)
  from c1 c2 c3 c4 show ?thesis by blast
qed

theorem menu_transitions_witness:
  "\<not> ce_open (ce_componentDidLoad labelContains [alaska])
   \<and> ce_open (after (ce_handle labelContains (ce_componentDidLoad labelContains [alaska])
                        InputClick))
   \<and> ce_open (ce_updateMenuState (ce_componentDidLoad labelContains [alaska]) True True)
   \<and> \<not> ce_open (after (ce_handle labelContains
          (ce_updateMenuState (ce_componentDidLoad labelContains [alaska]) True True)
          (Input ''zzz'')))
   \<and> ce_filteredOptions (after (ce_handle labelContains
          (ce_updateMenuState (ce_componentDidLoad labelContains [alaska]) True True)
          (Input ''zzz''))) = []
   \<and> \<not> sc_open (sc_componentDidLoad labelContains True [alaska])
   \<and> sc_open (after (sc_handle labelContains (sc_componentDidLoad labelContains True [alaska])
                        InputClick))
   \<and> sc_open (sc_updateMenuState (sc_componentDidLoad labelContains True [alaska]) True True)
   \<and> \<not> sc_open (after (sc_handle labelContains
          (sc_updateMenuState (sc_componentDidLoad labelContains True [alaska]) True True)
          (Input ''zzz'')))
   \<and> sc_filteredOptions (after (sc_handle labelContains
          (sc_updateMenuState (sc_componentDidLoad labelContains True [alaska]) True True)
          (Input ''zzz''))) = []"
  using menu_transitions
      [where test = labelContains and e = InputClick
         and s = "ce_componentDidLoad labelContains [alaska]"
         and t = "sc_componentDidLoad labelContains True [alaska]"]
    menu_transitions
      [where test = labelContains and e = "Input ''zzz''"
         and s = "ce_updateMenuState (ce_componentDidLoad labelContains [alaska]) True True"
         and t = "sc_updateMenuState (sc_componentDidLoad labelContains True [alaska]) True True"]
  by (simp add: ce_defs sc_defs eval_defs)

text \<open>
  Typing closes an open menu: with the single option \<open>Alaska\<close>, a click on the input
  opens the menu, and the input event for the text \<open>zzz\<close>, which is neither a key
  action nor a blur, leaves no match and closes it. Under either label test.
\<close>

theorem input_without_match_closes_menu:
  "ce_open (after (ce_run labelContains (ce_componentDidLoad labelContains [alaska])
                          [InputClick]))
   \<and> \<not> ce_open (after (ce_run labelContains (ce_componentDidLoad labelContains [alaska])
                          [InputClick, Input ''zzz'']))
   \<and> ce_open (after (ce_run labelStartsWith (ce_componentDidLoad labelStartsWith [alaska])
                          [InputClick]))
   \<and> \<not> ce_open (after (ce_run labelStartsWith (ce_componentDidLoad labelStartsWith [alaska])
                          [InputClick, Input ''zzz'']))"
  by (simp add: ce_defs eval_defs)

subsection \<open>Selecting an option\<close>

text \<open>
  Claim C5 fails on the code. \<^verbatim>\<open>selectOption\<close> reads \<^verbatim>\<open>.name\<close> of
  \<^verbatim>\<open>filteredOptions[index]\<close> without looking at the length of the list. In \<^verbatim>\<open>ComboEleven\<close>
  with the single option \<open>Alaska\<close>, typing \<open>zzz\<close> empties the filtered list, ArrowDown
  opens the menu, and Enter throws a \<^verbatim>\<open>TypeError\<close>; in \<^verbatim>\<open>SuiCombobox\<close> with filtering,
  typing \<open>zzz\<close>, a click on the input and a blur throw in the same way. Under either
  label test.
\<close>

theorem select_on_empty_list_throws:
  "raised (ce_run labelContains (ce_componentDidLoad labelContains [alaska])
                  [Input ''zzz'', KeyDown ''ArrowDown'', KeyDown ''Enter'']) = Some TypeError
   \<and> raised (sc_run labelContains (sc_componentDidLoad labelContains True [alaska])
                  [Input ''zzz'', InputClick, Blur]) = Some TypeError
   \<and> raised (ce_run labelStartsWith (ce_componentDidLoad labelStartsWith [alaska])
                  [Input ''zzz'', KeyDown ''ArrowDown'', KeyDown ''Enter'']) = Some TypeError
   \<and> raised (sc_run labelStartsWith (sc_componentDidLoad labelStartsWith True [alaska])
                  [Input ''zzz'', InputClick, Blur]) = Some TypeError"
  by (simp add: ce_defs sc_defs eval_defs)



subsection \<open>Escape in \<^verbatim>\<open>SuiCombobox\<close>\<close>

text \<open>
  Claim C7. In \<^verbatim>\<open>SuiCombobox\<close>, Escape on an open menu sets the active index to \<open>0\<close>,
  the input value to the last selected value and the filtered list to the whole option
  list, and closes the menu (giving the input the focus); nothing else changes.
\<close>

theorem sc_escape_reverts:
  "sc_open s \<Longrightarrow>
   sc_handle test s (KeyDown ''Escape'') =
     Inr (s\<lparr>sc_activeIndex := 0, sc_value := sc_selectedValue s,
            sc_filteredOptions := sc_options s, sc_open := False,
            sc_focusCalls := Suc (sc_focusCalls s)\<rparr>)"
  by (simp add: sc_defs getActionFromKey_def)

theorem sc_escape_reverts_witness:
  "sc_open (sc_sample labelContains)
   \<and> sc_handle labelContains (sc_sample labelContains) (KeyDown ''Escape'') =
       Inr \<lparr> sc_filter = True, sc_options = [alaska, arizona, ohio], sc_activeIndex = 0,
             sc_filteredOptions = [alaska, arizona, ohio], sc_open = False,
             sc_value = ''Ohio'', sc_ignoreBlur = False, sc_selectedValue = ''Ohio'',
             sc_selectEvent = [ohio], sc_focusCalls = 4 \<rparr>"
  using sc_escape_reverts [where test = labelContains and s = "sc_sample labelContains"]
  by (simp add: sc_sample_eq)

subsection \<open>Typing resets the active index\<close>

text \<open>
  Claim C10. An input event never throws in \<^verbatim>\<open>ComboEleven\<close>; when its text differs from
  the stored value, the active index becomes \<open>0\<close>, the selected index is cleared and
  the value and the filtered list follow the text. In \<^verbatim>\<open>SuiCombobox\<close> with filtering,
  every input event returns with the active index \<open>0\<close> and the filtered list of the
  text. In both, the first filtered option, when there is one, is then the active one.
  All of it for every label test of the filter.
\<close>

theorem onInput_resets_activeIndex:
  "raised (ce_handle test s (Input curValue)) = None
   \<and> (curValue \<noteq> ce_value s \<longrightarrow>
        ce_activeIndex (after (ce_handle test s (Input curValue))) = 0
        \<and> ce_selectedIndex (after (ce_handle test s (Input curValue))) = None
        \<and> ce_value (after (ce_handle test s (Input curValue))) = curValue
        \<and> ce_filteredOptions (after (ce_handle test s (Input curValue)))
            = filterOptions test (ce_options s) curValue
        \<and> (\<forall>first rest. filterOptions test (ce_options s) curValue = first # rest \<longrightarrow>
              jsIndex (ce_filteredOptions (after (ce_handle test s (Input curValue))))
                      (ce_activeIndex (after (ce_handle test s (Input curValue)))) = Some first))
   \<and> (sc_filter t \<longrightarrow>
        raised (sc_handle test t (Input curValue)) = None
        \<and> sc_activeIndex (after (sc_handle test t (Input curValue))) = 0
        \<and> sc_value (after (sc_handle test t (Input curValue))) = curValue
        \<and> sc_filteredOptions (after (sc_handle test t (Input curValue)))
            = filterOptions test (sc_options t) curValue
        \<and> (\<forall>first rest. filterOptions test (sc_options t) curValue = first # rest \<longrightarrow>
              jsIndex (sc_filteredOptions (after (sc_handle test t (Input curValue))))
                      (sc_activeIndex (after (sc_handle test t (Input curValue)))) = Some first))"
  by (simp add: ce_defs sc_defs after_def raised_def jsIndex_def Let_def)

theorem onInput_resets_activeIndex_witness:
  "''oh'' \<noteq> ce_value (ce_sample labelContains)
   \<and> ce_activeIndex (ce_sample labelContains) = 1
   \<and> ce_activeIndex (after (ce_handle labelContains (ce_sample labelContains) (Input ''oh'')))
       = 0
   \<and> ce_selectedIndex
         (after (ce_handle labelContains (ce_sample labelContains) (Input ''oh''))) = None
   \<and> filterOptions labelContains (ce_options (ce_sample labelContains)) ''oh'' = ohio # []
   \<and> jsIndex
         (ce_filteredOptions
            (after (ce_handle labelContains (ce_sample labelContains) (Input ''oh''))))
         (ce_activeIndex
            (after (ce_handle labelContains (ce_sample labelContains) (Input ''oh''))))
       = Some ohio
   \<and> sc_filter (sc_sample labelContains)
   \<and> sc_activeIndex (sc_sample labelContains) = 1
   \<and> sc_activeIndex (after (sc_handle labelContains (sc_sample labelContains) (Input ''oh'')))
       = 0
   \<and> filterOptions labelContains (sc_options (sc_sample labelContains)) ''oh'' = ohio # []
   \<and> jsIndex
         (sc_filteredOptions
            (after (sc_handle labelContains (sc_sample labelContains) (Input ''oh''))))
         (sc_activeIndex
            (after (sc_handle labelContains (sc_sample labelContains) (Input ''oh''))))
       = Some ohio"
proof -
  have f: "filterOptions labelContains [alaska, arizona, ohio] ''oh'' = [ohio]"
    by (simp add: sample_defs filterOptions_def labelContains_def toLowerCase_def
          toLowerChar_def)
  show ?thesis
    using onInput_resets_activeIndex
        [where test = labelContains and s = "ce_sample labelContains" and curValue = "''oh''"
           and t = "sc_sample labelContains"] f
    by (simp add: ce_sample_eq sc_sample_eq ce_defs sc_defs after_def raised_def jsIndex_def
          Let_def)
qed

end
